theory Spec2Isabelle
  imports Main "HOL-Library.Sublist"
begin

section \<open>Values, requests and responses\<close>

text \<open>
  The application is an Express 4 program (its comments link the 4.x API): a
  chain of middlewares \<open>(req, res, next)\<close>, two routers with one GET route each,
  a 404 handler and an error handler. A middleware mutates \<open>req\<close> and \<open>res\<close>
  and then calls \<open>next()\<close>, answers, or throws; here it is a function from the
  exchange to a signal and the updated exchange.
\<close>

datatype json =
    JNull
  | JBool bool
  | JNum int
  | JStr string
  | JArr "json list"
  | JObj "(string \<times> json) list"

text \<open>What \<open>req.body\<close> can hold: nothing, the raw text, or a structured value.\<close>

datatype js_value = Undefined | Str string | Structured json

datatype js_error = JsError (name: string) (message: string) (stack: string)

text \<open>
  The built-ins and packages that the middlewares and Express call are
  parameters of the model:
  \<^item> \<open>JSON_parse_text\<close> is \<open>None\<close> on a text that is not JSON, in which case
    \<open>JSON.parse\<close> throws the \<open>SyntaxError\<close> that \<open>SyntaxError_for\<close> builds;
  \<^item> \<open>url_parse_pathname\<close> is the pathname Node's \<open>url.parse\<close> finds in a
    request target, \<open>None\<close> when it finds none or throws;
  \<^item> \<open>JSON_stringify\<close>, \<open>setCharset_utf8\<close> and \<open>etag\<close> give the bytes of a
    JSON body, a content type with its charset, and the entity tag of a body;
  \<^item> \<open>fresh_conditional\<close> is the decision of the \<open>fresh\<close> package on a
    conditional request: the request headers, then the response's \<open>ETag\<close> and
    \<open>Last-Modified\<close>.
\<close>

record lib =
  JSON_parse_text :: "string \<Rightarrow> json option"
  SyntaxError_for :: "string \<Rightarrow> js_error"
  ToString :: "json \<Rightarrow> string"
  qs_parse :: "js_value \<Rightarrow> json"
  cookie_parse :: "string \<Rightarrow> json"
  url_parse_pathname :: "string \<Rightarrow> string option"
  JSON_stringify :: "json \<Rightarrow> string"
  setCharset_utf8 :: "string \<Rightarrow> string"
  etag :: "string \<Rightarrow> string"
  fresh_conditional :: "(string \<rightharpoonup> string) \<Rightarrow> string option \<Rightarrow> string option \<Rightarrow> bool"

text \<open>
  The request as the middlewares read it; \<open>http_method\<close> is \<open>req.method\<close>,
  \<open>url\<close> the request target as Node hands it over, \<open>headers\<close> is keyed by
  lower-cased names.
\<close>

record request =
  http_method :: string
  url :: string
  headers :: "string \<rightharpoonup> string"
  body :: js_value
  cookies :: "json option"

datatype payload = NoPayload | Json json | Text string | DefaultPage

text \<open>
  The response: \<open>out_headers\<close> is keyed by the lower-cased header name, as Node
  keeps it; \<open>payload\<close> is the body sent: none, the JSON value whose bytes
  \<open>JSON.stringify\<close> gives, a text, or the HTML page that Express writes itself.
\<close>

record response =
  statusCode :: nat
  out_headers :: "string \<rightharpoonup> string"
  payload :: payload

record console =
  stdout :: "string list"
  stderr :: "string list"

datatype stage =
    Stage_logger
  | Stage_cors
  | Stage_remove_x_powered_by
  | Stage_jsonParser
  | Stage_urlEncodedParser
  | Stage_cookieParser
  | Stage_api
  | Stage_router
  | Stage_notFound
  | Stage_errorHandler

text \<open>
  One exchange in flight. \<open>out\<close> is the process's console; \<open>trace\<close> is a ghost
  field listing the stages of src/app.js entered.
\<close>

record exchange =
  req :: request
  res :: response
  out :: console
  trace :: "stage list"

text \<open>How a middleware hands over: \<open>next()\<close>, a response sent, or a throw.\<close>

datatype signal = Next | Responded | Raise js_error

type_synonym middleware = "exchange \<Rightarrow> signal \<times> exchange"

type_synonym error_middleware = "js_error \<Rightarrow> exchange \<Rightarrow> signal \<times> exchange"

section \<open>Strings\<close>

definition lower_char :: "char \<Rightarrow> char" where
  "lower_char c =
     (case map_of (zip ''ABCDEFGHIJKLMNOPQRSTUVWXYZ'' ''abcdefghijklmnopqrstuvwxyz'') c of
        None \<Rightarrow> c
      | Some d \<Rightarrow> d)"

definition toLowerCase :: "string \<Rightarrow> string" where
  "toLowerCase s = map lower_char s"

text \<open>\<open>s.indexOf(sub)\<close>, with \<open>None\<close> for -1.\<close>

fun indexOf :: "string \<Rightarrow> string \<Rightarrow> nat option" where
  "indexOf sub [] = (if sub = [] then Some 0 else None)"
| "indexOf sub (c # cs) =
     (if prefix sub (c # cs) then Some 0 else map_option Suc (indexOf sub cs))"

text \<open>A number in decimal, as a header value carries it.\<close>

definition digit :: "nat \<Rightarrow> char" where
  "digit n = ''0123456789'' ! (n mod 10)"

function decimal :: "nat \<Rightarrow> string" where
  "decimal n = (if n < 10 then [digit n] else decimal (n div 10) @ [digit n])"
  by pat_completeness auto
termination
  by (relation "measure id") auto

declare decimal.simps [simp del]

text \<open>A header value that JavaScript takes for false: absent or empty.\<close>

definition falsy :: "string option \<Rightarrow> bool" where
  "falsy v = (v = None \<or> v = Some [])"

section \<open>The response object\<close>

definition setHeader :: "string \<Rightarrow> string \<Rightarrow> exchange \<Rightarrow> exchange" where
  "setHeader k v x =
     x\<lparr>res := (res x)\<lparr>out_headers := (out_headers (res x))(toLowerCase k \<mapsto> v)\<rparr>\<rparr>"

definition removeHeader :: "string \<Rightarrow> exchange \<Rightarrow> exchange" where
  "removeHeader k x =
     x\<lparr>res := (res x)\<lparr>out_headers := (out_headers (res x))(toLowerCase k := None)\<rparr>\<rparr>"

definition getHeader :: "string \<Rightarrow> exchange \<Rightarrow> string option" where
  "getHeader k x = out_headers (res x) (toLowerCase k)"

definition status :: "nat \<Rightarrow> exchange \<Rightarrow> exchange" where
  "status n x = x\<lparr>res := (res x)\<lparr>statusCode := n\<rparr>\<rparr>"

text \<open>
  The \<open>fresh\<close> package: an unconditional request is never fresh; for a
  conditional one the package compares the validators.
\<close>

definition fresh :: "lib \<Rightarrow> (string \<rightharpoonup> string) \<Rightarrow> string option \<Rightarrow> string option \<Rightarrow> bool" where
  "fresh L h tag modified =
     (if falsy (h ''if-modified-since'') \<and> falsy (h ''if-none-match'') then False
      else fresh_conditional L h tag modified)"

text \<open>\<open>req.fresh\<close>: only GET and HEAD, only with a 2xx or 304 status.\<close>

definition req_fresh :: "lib \<Rightarrow> exchange \<Rightarrow> bool" where
  "req_fresh L x =
     (if http_method (req x) \<noteq> ''GET'' \<and> http_method (req x) \<noteq> ''HEAD'' then False
      else if (200 \<le> statusCode (res x) \<and> statusCode (res x) < 300) \<or> statusCode (res x) = 304
        then fresh L (headers (req x)) (getHeader ''ETag'' x) (getHeader ''Last-Modified'' x)
      else False)"

text \<open>The bytes of a body.\<close>

definition chunk_of :: "lib \<Rightarrow> payload \<Rightarrow> string" where
  "chunk_of L p =
     (case p of Json j \<Rightarrow> JSON_stringify L j | Text s \<Rightarrow> s | _ \<Rightarrow> [])"

text \<open>
  \<open>res.send(chunk)\<close> in its steps. First the headers of the body: the content
  type (HTML when none is set) with its charset, the length, and the entity tag
  unless one is set.
\<close>

definition send_headers :: "lib \<Rightarrow> string \<Rightarrow> exchange \<Rightarrow> exchange" where
  "send_headers L chunk x =
     (let x1 = (if falsy (getHeader ''Content-Type'' x)
                then setHeader ''Content-Type'' ''text/html; charset=utf-8'' x else x);
          x2 = (case getHeader ''Content-Type'' x1 of
                  None \<Rightarrow> x1
                | Some ty \<Rightarrow> setHeader ''Content-Type'' (setCharset_utf8 L ty) x1);
          generateETag = falsy (getHeader ''ETag'' x2);
          x3 = setHeader ''Content-Length'' (decimal (length chunk)) x2
      in if generateETag then setHeader ''ETag'' (etag L chunk) x3 else x3)"

text \<open>Then freshness: a fresh request is answered 304.\<close>

definition send_freshness :: "lib \<Rightarrow> exchange \<Rightarrow> exchange" where
  "send_freshness L x = (if req_fresh L x then status 304 x else x)"

text \<open>Then the headers a bodiless status must not carry.\<close>

definition send_strip :: "exchange \<Rightarrow> exchange" where
  "send_strip x =
     (let x1 = (if statusCode (res x) = 204 \<or> statusCode (res x) = 304
                then removeHeader ''Transfer-Encoding''
                       (removeHeader ''Content-Length'' (removeHeader ''Content-Type'' x))
                else x)
      in if statusCode (res x1) = 205
         then removeHeader ''Transfer-Encoding'' (setHeader ''Content-Length'' ''0'' x1)
         else x1)"

text \<open>
  Last the body: none for the statuses 204, 205 and 304, none for a HEAD
  request, the chunk otherwise.
\<close>

definition send :: "lib \<Rightarrow> payload \<Rightarrow> exchange \<Rightarrow> exchange" where
  "send L p x =
     (let x1 = send_strip (send_freshness L (send_headers L (chunk_of L p) x))
      in x1\<lparr>res := (res x1)\<lparr>payload :=
           (if statusCode (res x1) = 204 \<or> statusCode (res x1) = 205 \<or>
               statusCode (res x1) = 304 \<or> http_method (req x1) = ''HEAD''
            then NoPayload else p)\<rparr>\<rparr>)"

text \<open>
  \<open>res.json(obj)\<close>: the content type defaults to JSON (\<open>res.set\<close> adds the
  charset to it), then the object is sent.
\<close>

definition json :: "lib \<Rightarrow> json \<Rightarrow> exchange \<Rightarrow> exchange" where
  "json L j x =
     send L (Json j)
       (if falsy (getHeader ''Content-Type'' x)
        then setHeader ''Content-Type'' ''application/json; charset=utf-8'' x else x)"

definition console_log :: "string \<Rightarrow> exchange \<Rightarrow> exchange" where
  "console_log s x = x\<lparr>out := (out x)\<lparr>stdout := stdout (out x) @ [s]\<rparr>\<rparr>"

definition console_error :: "string \<Rightarrow> exchange \<Rightarrow> exchange" where
  "console_error s x = x\<lparr>out := (out x)\<lparr>stderr := stderr (out x) @ [s]\<rparr>\<rparr>"

section \<open>The built-ins\<close>

text \<open>
  \<open>JSON.parse(v)\<close> parses \<open>ToString(v)\<close>. For \<open>undefined\<close> that text is
  \<open>undefined\<close>, which is no JSON text, so the call throws.
\<close>

definition parse_text :: "lib \<Rightarrow> string \<Rightarrow> js_error + json" where
  "parse_text L s =
     (case JSON_parse_text L s of
        None \<Rightarrow> Inl (SyntaxError_for L s)
      | Some j \<Rightarrow> Inr j)"

definition JSON_parse :: "lib \<Rightarrow> js_value \<Rightarrow> js_error + json" where
  "JSON_parse L v =
     (case v of
        Undefined \<Rightarrow> Inl (SyntaxError_for L ''undefined'')
      | Str s \<Rightarrow> parse_text L s
      | Structured j \<Rightarrow> parse_text L (ToString L j))"

section \<open>src/middlewares.js\<close>

definition notFound :: "lib \<Rightarrow> middleware" where
  "notFound L x =
     (Responded,
      json L (JObj [(''status'', JBool False), (''message'', JStr ''Not found'')])
        (status 404 x))"

definition errorHandler :: "lib \<Rightarrow> error_middleware" where
  "errorHandler L err x =
     (Responded,
      json L (JObj [(''status'', JBool False), (''message'', JStr ''Internal server error'')])
        (status 500 (console_error (stack err) x)))"

definition logger :: middleware where
  "logger x = (Next, console_log (http_method (req x) @ '' '' @ url (req x)) x)"

definition jsonParser :: "lib \<Rightarrow> middleware" where
  "jsonParser L x =
     (if headers (req x) ''content-type'' = Some ''application/json'' then
        (case JSON_parse L (body (req x)) of
           Inl e \<Rightarrow> (Raise e, x)
         | Inr j \<Rightarrow> (Next, x\<lparr>req := (req x)\<lparr>body := Structured j\<rparr>\<rparr>))
      else (Next, x))"

definition urlEncodedParser :: "lib \<Rightarrow> middleware" where
  "urlEncodedParser L x =
     (if headers (req x) ''content-type'' = Some ''application/x-www-form-urlencoded'' then
        (Next, x\<lparr>req := (req x)\<lparr>body := Structured (qs_parse L (body (req x)))\<rparr>\<rparr>)
      else (Next, x))"

text \<open>\<open>req.headers.cookie || ""\<close>: an absent or empty header gives the empty text.\<close>

definition cookieParser :: "lib \<Rightarrow> middleware" where
  "cookieParser L x =
     (Next,
      x\<lparr>req := (req x)\<lparr>cookies :=
           Some (cookie_parse L (case headers (req x) ''cookie'' of None \<Rightarrow> '''' | Some c \<Rightarrow> c))\<rparr>\<rparr>)"

definition cors :: middleware where
  "cors x =
     (Next,
      setHeader ''Access-Control-Allow-Headers'' ''*''
        (setHeader ''Access-Control-Allow-Methods'' ''*''
          (setHeader ''Access-Control-Allow-Origin'' ''*'' x)))"

definition remove_trailing_slash :: middleware where
  "remove_trailing_slash x =
     (if url (req x) \<noteq> [] \<and> last (url (req x)) = CHR ''/'' \<and> length (url (req x)) > 1 then
        (Next, x\<lparr>req := (req x)\<lparr>url := butlast (url (req x))\<rparr>\<rparr>)
      else (Next, x))"

definition remove_x_powered_by :: middleware where
  "remove_x_powered_by x = (Next, removeHeader ''X-Powered-By'' x)"

definition remove_etag :: middleware where
  "remove_etag x = (Next, removeHeader ''ETag'' x)"

definition remove_x_content_type_options :: middleware where
  "remove_x_content_type_options x = (Next, removeHeader ''X-Content-Type-Options'' x)"

section \<open>The echo handlers\<close>

text \<open>src/routers/lib/echo.js\<close>

definition echo :: "lib \<Rightarrow> middleware" where
  "echo L x =
     (Responded,
      json L (JObj [(''status'', JBool True), (''message'', JStr ''Hello world, from /'')])
        (status 200 x))"

text \<open>src/api/lib/echo.js\<close>

definition api_echo :: "lib \<Rightarrow> middleware" where
  "api_echo L x =
     (Responded,
      json L (JObj [(''status'', JBool True), (''message'', JStr ''Hello world, from the API!'')])
        (status 200 x))"

section \<open>Express: the path of a request\<close>

text \<open>
  Express routes on \<open>parseurl(req).pathname\<close>. A target that starts with a slash
  and has no tab, line feed, form feed, carriage return, space, \<open>#\<close> or
  no-break space after it is cut at the first \<open>?\<close>; every other target goes to
  Node's \<open>url.parse\<close>, which may find no pathname at all.
\<close>

definition special :: "char \<Rightarrow> bool" where
  "special c =
     (c = CHR 0x09 \<or> c = CHR 0x0A \<or> c = CHR 0x0C \<or> c = CHR 0x0D \<or> c = CHR 0x20 \<or>
      c = CHR 0x23 \<or> c = CHR 0xA0)"

definition plain_target :: "string \<Rightarrow> bool" where
  "plain_target u = (u \<noteq> [] \<and> hd u = CHR ''/'' \<and> \<not> list_ex special (tl u))"

definition getPathname :: "lib \<Rightarrow> string \<Rightarrow> string option" where
  "getPathname L u =
     (if plain_target u then Some (takeWhile (\<lambda>c. c \<noteq> CHR ''?'') u)
      else url_parse_pathname L u)"

text \<open>
  The scheme and host in front of an absolute-form target, empty for a target
  that starts with a slash or has no \<open>://\<close> before its query.
\<close>

definition getProtohost :: "string \<Rightarrow> string" where
  "getProtohost u =
     (if u = [] \<or> hd u = CHR ''/'' then []
      else
        (case indexOf ''://'' (takeWhile (\<lambda>c. c \<noteq> CHR ''?'') u) of
           None \<Rightarrow> []
         | Some i \<Rightarrow>
             (case indexOf ''/'' (drop (3 + i) u) of
                None \<Rightarrow> []
              | Some k \<Rightarrow> take (3 + i + k) u)))"

section \<open>Express: routes, routers and the middleware stack\<close>

text \<open>
  Express with its default settings: routing is not case sensitive and not
  strict, so a route path also matches with one trailing slash; a GET route
  also serves HEAD; a router that found the path but not the method answers an
  OPTIONS request itself with the methods it allows.
\<close>

datatype route = Get string middleware

text \<open>
  A layer of the application's stack: a middleware or a router mounted on a
  path, both tagged with the stage of src/app.js, or a layer that Express puts
  in itself.
\<close>

datatype layer =
    Use stage middleware
  | UseError stage error_middleware
  | Mount stage string "route list"
  | Builtin middleware

text \<open>A route path without parameters against the path the router sees.\<close>

definition match_route :: "string \<Rightarrow> string \<Rightarrow> bool" where
  "match_route pat p =
     (let t = toLowerCase pat; q = toLowerCase p
      in if t \<noteq> [] \<and> last t = CHR ''/'' then q = t \<or> q = butlast t
         else q = t \<or> q = t @ ''/'')"

text \<open>
  A mount path against the request path: \<open>None\<close> when the router is not entered,
  otherwise the part of the path that the mount path matched, with a slash
  after it when the path ends there or goes on with a second slash. The mount
  path \<open>/\<close> matches every path and takes nothing of it.
\<close>

definition match_mount :: "string \<Rightarrow> string \<Rightarrow> string option" where
  "match_mount pre p =
     (if pre = ''/'' then Some []
      else if toLowerCase (take (length pre) p) = toLowerCase pre then
        (case drop (length pre) p of
           [] \<Rightarrow> Some (take (length pre) p)
         | c # cs \<Rightarrow>
             if c \<noteq> CHR ''/'' then None
             else if cs = [] \<or> hd cs = CHR ''/'' then Some (take (length pre) p @ ''/'')
             else Some (take (length pre) p))
      else None)"

text \<open>
  Entering a mounted router cuts the matched part off the target, after the
  scheme and host, and keeps a leading slash; leaving it puts the part back.
  The flag tells whether a slash was added.
\<close>

definition trim_prefix :: "string \<Rightarrow> string \<Rightarrow> string \<Rightarrow> string \<times> bool" where
  "trim_prefix ph removed u =
     (if removed = [] then (u, False)
      else
        (let u1 = ph @ drop (length ph + length removed) u
         in if ph = [] \<and> (u1 = [] \<or> hd u1 \<noteq> CHR ''/'') then (CHR ''/'' # u1, True)
            else (u1, False)))"

definition restore_url :: "string \<Rightarrow> string \<Rightarrow> bool \<Rightarrow> string \<Rightarrow> string" where
  "restore_url ph removed slashAdded u =
     (let u1 = (if slashAdded then tl u else u)
      in if removed = [] then u1 else ph @ removed @ drop (length ph) u1)"

text \<open>Whether a GET route serves the method: GET itself, and HEAD through GET.\<close>

definition handles_method :: "string \<Rightarrow> bool" where
  "handles_method m =
     (let n = toLowerCase m in (if n = ''head'' then ''get'' else n) = ''get'')"

definition appendMethods :: "string list \<Rightarrow> string list \<Rightarrow> string list" where
  "appendMethods opts ms = foldl (\<lambda>l m. if m \<in> set l then l else l @ [m]) opts ms"

fun join :: "string list \<Rightarrow> string" where
  "join [] = ''''"
| "join [m] = m"
| "join (m # ms) = m @ '','' @ join ms"

definition sendOptionsResponse :: "lib \<Rightarrow> string list \<Rightarrow> exchange \<Rightarrow> signal \<times> exchange" where
  "sendOptionsResponse L opts x =
     (Responded, send L (Text (join opts)) (setHeader ''Allow'' (join opts) x))"

text \<open>
  A router leaves to its parent, unless the request is OPTIONS and some route
  had the path: then it answers itself.
\<close>

definition router_done :: "lib \<Rightarrow> string list \<Rightarrow> exchange \<Rightarrow> signal \<times> exchange" where
  "router_done L opts x =
     (if http_method (req x) = ''OPTIONS'' \<and> opts \<noteq> [] then sendOptionsResponse L opts x
      else (Next, x))"

text \<open>
  The routes of a router in order, on the target as it is inside the router. A
  target without a pathname leaves the router at once; a route whose path
  matches but whose method does not adds its methods to the OPTIONS answer; a
  throw in a handler leaves the router with the error.
\<close>

fun router_handle :: "lib \<Rightarrow> route list \<Rightarrow> string list \<Rightarrow> exchange \<Rightarrow> signal \<times> exchange" where
  "router_handle L [] opts x = router_done L opts x"
| "router_handle L (Get pat h # rs) opts x =
     (case getPathname L (url (req x)) of
        None \<Rightarrow> router_done L opts x
      | Some p \<Rightarrow>
          if match_route pat p then
            (if handles_method (http_method (req x)) then
               (case h x of
                  (Next, x') \<Rightarrow> router_handle L rs opts x'
                | (Responded, x') \<Rightarrow> (Responded, x')
                | (Raise e, x') \<Rightarrow> (Raise e, x'))
             else router_handle L rs
                    (if http_method (req x) = ''OPTIONS''
                     then appendMethods opts [''GET'', ''HEAD''] else opts) x)
          else router_handle L rs opts x)"

definition enter :: "stage \<Rightarrow> exchange \<Rightarrow> exchange" where
  "enter n x = x\<lparr>trace := trace x @ [n]\<rparr>"

text \<open>
  What Express does when the stack is left without an answer: its own HTML
  page, with status 404, or for a pending error the status of the response if
  that is an error status and 500 otherwise. The page's own length header is
  not modelled.
\<close>

definition finalhandler :: "js_error option \<Rightarrow> exchange \<Rightarrow> exchange" where
  "finalhandler err x =
     (let s = (case err of
                 None \<Rightarrow> 404
               | Some e \<Rightarrow>
                   if 400 \<le> statusCode (res x) \<and> statusCode (res x) < 600
                   then statusCode (res x) else 500);
          x1 = removeHeader ''Content-Range''
                 (removeHeader ''Content-Language'' (removeHeader ''Content-Encoding'' (status s x)));
          x2 = setHeader ''Content-Type'' ''text/html; charset=utf-8''
                 (setHeader ''X-Content-Type-Options'' ''nosniff''
                   (setHeader ''Content-Security-Policy''
                     (''default-src '' @ [CHR 0x27] @ ''none'' @ [CHR 0x27]) x1))
      in x2\<lparr>res := (res x2)\<lparr>payload :=
           (if http_method (req x2) = ''HEAD'' then NoPayload else DefaultPage)\<rparr>\<rparr>)"

text \<open>
  The stack, with the pending error if any. Before each layer the router reads
  the pathname of the target and leaves the stack when there is none. A
  middleware is skipped while an error is pending, an error middleware is
  skipped while none is; a throw becomes the pending error. A mounted router
  whose mount path matches runs on the target with the matched part cut off.
\<close>

fun handle :: "lib \<Rightarrow> layer list \<Rightarrow> js_error option \<Rightarrow> exchange \<Rightarrow> exchange" where
  "handle L [] err x = finalhandler err x"
| "handle L (l # ls) err x =
     (case getPathname L (url (req x)) of
        None \<Rightarrow> finalhandler err x
      | Some p \<Rightarrow>
         (case l of
            Use n f \<Rightarrow>
              (case err of
                 Some e \<Rightarrow> handle L ls (Some e) x
               | None \<Rightarrow>
                   (case f (enter n x) of
                      (Next, x') \<Rightarrow> handle L ls None x'
                    | (Responded, x') \<Rightarrow> x'
                    | (Raise e, x') \<Rightarrow> handle L ls (Some e) x'))
          | Builtin f \<Rightarrow>
              (case err of
                 Some e \<Rightarrow> handle L ls (Some e) x
               | None \<Rightarrow>
                   (case f x of
                      (Next, x') \<Rightarrow> handle L ls None x'
                    | (Responded, x') \<Rightarrow> x'
                    | (Raise e, x') \<Rightarrow> handle L ls (Some e) x'))
          | UseError n f \<Rightarrow>
              (case err of
                 None \<Rightarrow> handle L ls None x
               | Some e \<Rightarrow>
                   (case f e (enter n x) of
                      (Next, x') \<Rightarrow> handle L ls None x'
                    | (Responded, x') \<Rightarrow> x'
                    | (Raise e', x') \<Rightarrow> handle L ls (Some e') x'))
          | Mount n pre rs \<Rightarrow>
              (case err of
                 Some e \<Rightarrow> handle L ls (Some e) x
               | None \<Rightarrow>
                   (case match_mount pre p of
                      None \<Rightarrow> handle L ls None x
                    | Some removed \<Rightarrow>
                        (let ph = getProtohost (url (req x));
                             cut = trim_prefix ph removed (url (req x));
                             inside = router_handle L rs []
                                        (enter n (x\<lparr>req := (req x)\<lparr>url := fst cut\<rparr>\<rparr>));
                             y = snd inside;
                             restored = y\<lparr>req := (req y)\<lparr>url :=
                                      restore_url ph removed (snd cut) (url (req y))\<rparr>\<rparr>
                         in case fst inside of
                              Next \<Rightarrow> handle L ls None restored
                            | Responded \<Rightarrow> y
                            | Raise e \<Rightarrow> handle L ls (Some e) restored)))))"

section \<open>src/api/api.js, src/routers/router.js and src/app.js\<close>

definition api :: "lib \<Rightarrow> route list" where
  "api L = [Get ''/echo'' (api_echo L)]"

definition router :: "lib \<Rightarrow> route list" where
  "router L = [Get ''/'' (echo L)]"

definition app_stack :: "lib \<Rightarrow> layer list" where
  "app_stack L =
     [Use Stage_logger logger,
      Use Stage_cors cors,
      Use Stage_remove_x_powered_by remove_x_powered_by,
      Use Stage_jsonParser (jsonParser L),
      Use Stage_urlEncodedParser (urlEncodedParser L),
      Use Stage_cookieParser (cookieParser L),
      Mount Stage_api ''/api'' (api L),
      Mount Stage_router ''/'' (router L),
      Use Stage_notFound (notFound L),
      UseError Stage_errorHandler (errorHandler L)]"

text \<open>
  In front of the application's layers Express puts its own, of which the one
  that matters here starts the response with the \<open>X-Powered-By\<close> header (the
  other only parses the query string into \<open>req.query\<close>).
\<close>

definition expressInit :: middleware where
  "expressInit x = (Next, setHeader ''X-Powered-By'' ''Express'' x)"

text \<open>A new exchange: Node starts the response with status 200 and no header.\<close>

definition incoming :: "console \<Rightarrow> request \<Rightarrow> exchange" where
  "incoming c r =
     \<lparr>req = r,
      res = \<lparr>statusCode = 200, out_headers = Map.empty, payload = NoPayload\<rparr>,
      out = c,
      trace = []\<rparr>"

definition app_run :: "lib \<Rightarrow> console \<Rightarrow> request \<Rightarrow> exchange" where
  "app_run L c r = handle L (Builtin expressInit # app_stack L) None (incoming c r)"

text \<open>
  When Node sends the response it adds the \<open>Date\<close> header, unless one is set.
  The other headers it adds then (\<open>Connection\<close>, \<open>Keep-Alive\<close>) follow from the
  request alone and are left out.
\<close>

definition sendDate :: "string \<Rightarrow> response \<Rightarrow> response" where
  "sendDate now a =
     (if out_headers a ''date'' = None
      then a\<lparr>out_headers := (out_headers a)(''date'' \<mapsto> now)\<rparr> else a)"

text \<open>
  One exchange: the console before, the date on the clock as Node prints it,
  the request; the console after, the response.
\<close>

definition app :: "lib \<Rightarrow> console \<Rightarrow> string \<Rightarrow> request \<Rightarrow> console \<times> response" where
  "app L c now r = (out (app_run L c r), sendDate now (res (app_run L c r)))"

section \<open>Notions used by the statements\<close>

text \<open>The first stages, Express's own and three of the application, as one step.\<close>

definition preamble :: "console \<Rightarrow> request \<Rightarrow> exchange" where
  "preamble c r =
     snd (remove_x_powered_by (enter Stage_remove_x_powered_by
       (snd (cors (enter Stage_cors
         (snd (logger (enter Stage_logger (snd (expressInit (incoming c r)))))))))))"

text \<open>The three parsers, and the layers after them.\<close>

definition parsing_layers :: "lib \<Rightarrow> layer list" where
  "parsing_layers L =
     [Use Stage_jsonParser (jsonParser L),
      Use Stage_urlEncodedParser (urlEncodedParser L),
      Use Stage_cookieParser (cookieParser L)]"

definition routing_layers :: "lib \<Rightarrow> layer list" where
  "routing_layers L =
     [Mount Stage_api ''/api'' (api L),
      Mount Stage_router ''/'' (router L),
      Use Stage_notFound (notFound L),
      UseError Stage_errorHandler (errorHandler L)]"

definition closing_layers :: "lib \<Rightarrow> layer list" where
  "closing_layers L =
     [Mount Stage_router ''/'' (router L),
      Use Stage_notFound (notFound L),
      UseError Stage_errorHandler (errorHandler L)]"

text \<open>
  The headers that sending a body may touch, and those that any answer, of a
  handler or of Express itself, may touch.
\<close>

definition body_header :: "string \<Rightarrow> bool" where
  "body_header k =
     (k = ''content-type'' \<or> k = ''content-length'' \<or> k = ''etag'' \<or> k = ''transfer-encoding'')"

definition volatile :: "string \<Rightarrow> bool" where
  "volatile k =
     (body_header k \<or> k = ''allow'' \<or> k = ''content-range'' \<or> k = ''content-language'' \<or>
      k = ''content-encoding'' \<or> k = ''content-security-policy'' \<or>
      k = ''x-content-type-options'')"

text \<open>The request as the three parsers leave it when none of them throws.\<close>

definition parsed :: "lib \<Rightarrow> request \<Rightarrow> request" where
  "parsed L r =
     r\<lparr>body :=
         (if headers r ''content-type'' = Some ''application/json'' then
            (case JSON_parse L (body r) of Inl e \<Rightarrow> body r | Inr j \<Rightarrow> Structured j)
          else if headers r ''content-type'' = Some ''application/x-www-form-urlencoded'' then
            Structured (qs_parse L (body r))
          else body r),
       cookies :=
         Some (cookie_parse L (case headers r ''cookie'' of None \<Rightarrow> '''' | Some c \<Rightarrow> c))\<rparr>"

text \<open>The request makes \<open>jsonParser\<close> throw.\<close>

definition parse_fails :: "lib \<Rightarrow> request \<Rightarrow> bool" where
  "parse_fails L r =
     (headers r ''content-type'' = Some ''application/json'' \<and> isl (JSON_parse L (body r)))"

text \<open>The order of the stages in src/app.js.\<close>

definition stage_order :: "stage list" where
  "stage_order =
     [Stage_logger, Stage_cors, Stage_remove_x_powered_by, Stage_jsonParser,
      Stage_urlEncodedParser, Stage_cookieParser, Stage_api, Stage_router,
      Stage_notFound, Stage_errorHandler]"

text \<open>
  Concrete inputs. The stand-in built-ins know the JSON text \<open>{}\<close> only, find
  the pathname of a target that starts with a slash and none in any other, and
  take a request with \<open>If-None-Match: *\<close> for fresh. Then an empty console, a
  request without headers or body, and one that announces JSON.
\<close>

definition sample_lib :: lib where
  "sample_lib =
     \<lparr>JSON_parse_text = (\<lambda>s. if s = ''{}'' then Some (JObj []) else None),
      SyntaxError_for = (\<lambda>s. JsError ''SyntaxError'' s (''SyntaxError: '' @ s)),
      ToString = (\<lambda>j. ''[object Object]''),
      qs_parse = (\<lambda>v. JObj []),
      cookie_parse = (\<lambda>s. JObj []),
      url_parse_pathname =
        (\<lambda>u. if u \<noteq> [] \<and> hd u = CHR ''/''
             then Some (takeWhile (\<lambda>c. c \<noteq> CHR ''?'' \<and> c \<noteq> CHR ''#'') u) else None),
      JSON_stringify = (\<lambda>j. ''{}''),
      setCharset_utf8 = (\<lambda>t. takeWhile (\<lambda>c. c \<noteq> CHR '';'') t @ ''; charset=utf-8''),
      etag = (\<lambda>s. ''W/2''),
      fresh_conditional = (\<lambda>h t m. h ''if-none-match'' = Some ''*'')\<rparr>"

definition quiet :: console where
  "quiet = \<lparr>stdout = [], stderr = []\<rparr>"

definition bare :: "string \<Rightarrow> string \<Rightarrow> request" where
  "bare m u = \<lparr>http_method = m, url = u, headers = Map.empty, body = Undefined, cookies = None\<rparr>"

definition json_typed :: "string \<Rightarrow> string \<Rightarrow> js_value \<Rightarrow> request" where
  "json_typed m u b =
     \<lparr>http_method = m, url = u, headers = [''content-type'' \<mapsto> ''application/json''],
      body = b, cookies = None\<rparr>"

section \<open>Auxiliary facts\<close>

lemmas res_defs =
  setHeader_def removeHeader_def getHeader_def status_def console_log_def
  console_error_def enter_def

lemma lower_names [simp]:
  "toLowerCase ''X-Powered-By'' = ''x-powered-by''"
  "toLowerCase ''Access-Control-Allow-Origin'' = ''access-control-allow-origin''"
  "toLowerCase ''Access-Control-Allow-Methods'' = ''access-control-allow-methods''"
  "toLowerCase ''Access-Control-Allow-Headers'' = ''access-control-allow-headers''"
  "toLowerCase ''Content-Type'' = ''content-type''"
  "toLowerCase ''Content-Length'' = ''content-length''"
  "toLowerCase ''Content-Range'' = ''content-range''"
  "toLowerCase ''Content-Language'' = ''content-language''"
  "toLowerCase ''Content-Encoding'' = ''content-encoding''"
  "toLowerCase ''Content-Security-Policy'' = ''content-security-policy''"
  "toLowerCase ''Transfer-Encoding'' = ''transfer-encoding''"
  "toLowerCase ''Last-Modified'' = ''last-modified''"
  "toLowerCase ''Allow'' = ''allow''"
  "toLowerCase ''ETag'' = ''etag''"
  "toLowerCase ''X-Content-Type-Options'' = ''x-content-type-options''"
  by (simp_all add: toLowerCase_def lower_char_def)

lemma header_frame [simp]:
  "req (setHeader k v x) = req x" "out (setHeader k v x) = out x"
  "trace (setHeader k v x) = trace x" "statusCode (res (setHeader k v x)) = statusCode (res x)"
  "req (removeHeader k x) = req x" "out (removeHeader k x) = out x"
  "trace (removeHeader k x) = trace x" "statusCode (res (removeHeader k x)) = statusCode (res x)"
  "req (status n x) = req x" "out (status n x) = out x" "trace (status n x) = trace x"
  "statusCode (res (status n x)) = n" "out_headers (res (status n x)) = out_headers (res x)"
  by (simp_all add: res_defs)

subsection \<open>Sending\<close>

lemma send_headers_frame [simp]:
  "req (send_headers L ch x) = req x" "out (send_headers L ch x) = out x"
  "trace (send_headers L ch x) = trace x"
  "statusCode (res (send_headers L ch x)) = statusCode (res x)"
  by (simp_all add: send_headers_def res_defs Let_def split: option.splits)

lemma send_headers_keep:
  "\<not> body_header k \<Longrightarrow> out_headers (res (send_headers L ch x)) k = out_headers (res x) k"
  by (simp add: send_headers_def body_header_def res_defs Let_def split: option.splits)

lemma send_headers_etag:
  "falsy (out_headers (res x) ''etag'') \<Longrightarrow>
     out_headers (res (send_headers L ch x)) ''etag'' = Some (etag L ch)"
  by (simp add: send_headers_def res_defs Let_def split: option.splits)


lemma send_freshness_frame [simp]:
  "req (send_freshness L x) = req x" "out (send_freshness L x) = out x"
  "trace (send_freshness L x) = trace x"
  "out_headers (res (send_freshness L x)) = out_headers (res x)"
  by (simp_all add: send_freshness_def res_defs)

lemma send_freshness_status:
  "statusCode (res (send_freshness L x)) = (if req_fresh L x then 304 else statusCode (res x))"
  by (simp add: send_freshness_def res_defs)



lemma send_strip_frame [simp]:
  "req (send_strip x) = req x" "out (send_strip x) = out x" "trace (send_strip x) = trace x"
  "statusCode (res (send_strip x)) = statusCode (res x)"
  by (simp_all add: send_strip_def res_defs Let_def)

lemma send_strip_keep:
  "\<not> body_header k \<Longrightarrow> out_headers (res (send_strip x)) k = out_headers (res x) k"
  by (simp add: send_strip_def body_header_def res_defs Let_def)


lemma send_frame [simp]:
  "req (send L p x) = req x" "out (send L p x) = out x" "trace (send L p x) = trace x"
  by (simp_all add: send_def Let_def)

lemma send_keep:
  "\<not> body_header k \<Longrightarrow> out_headers (res (send L p x)) k = out_headers (res x) k"
  by (simp add: send_def Let_def send_strip_keep send_headers_keep)


lemma send_status:
  "statusCode (res (send L p x)) =
     (if req_fresh L (send_headers L (chunk_of L p) x) then 304 else statusCode (res x))"
  by (simp add: send_def Let_def send_freshness_status)

lemma send_payload:
  "payload (res (send L p x)) =
     (if statusCode (res (send L p x)) = 204 \<or> statusCode (res (send L p x)) = 205 \<or>
         statusCode (res (send L p x)) = 304 \<or> http_method (req x) = ''HEAD''
      then NoPayload else p)"
  by (simp add: send_def Let_def)

lemma not_fresh_error:
  "400 \<le> statusCode (res x) \<Longrightarrow> \<not> req_fresh L (send_headers L ch x)"
  by (simp add: req_fresh_def)

subsection \<open>\<open>res.json\<close>\<close>

lemma json_frame [simp]:
  "req (json L j x) = req x" "out (json L j x) = out x" "trace (json L j x) = trace x"
  by (simp_all add: json_def res_defs)

lemma json_keep:
  "\<not> body_header k \<Longrightarrow> out_headers (res (json L j x)) k = out_headers (res x) k"
  by (simp add: json_def send_keep) (simp add: body_header_def res_defs)


lemma json_error:
  assumes "400 \<le> statusCode (res x)" "statusCode (res x) < 600"
  shows "statusCode (res (json L j x)) = statusCode (res x)"
    and "payload (res (json L j x)) = (if http_method (req x) = ''HEAD'' then NoPayload else Json j)"
proof -
  let ?y = "if falsy (getHeader ''Content-Type'' x)
            then setHeader ''Content-Type'' ''application/json; charset=utf-8'' x else x"
  have s: "statusCode (res ?y) = statusCode (res x)"
    by (simp add: res_defs)
  have nf: "\<not> req_fresh L (send_headers L (chunk_of L (Json j)) ?y)"
    using assms(1) s by (intro not_fresh_error) simp
  show st: "statusCode (res (json L j x)) = statusCode (res x)"
    unfolding json_def using nf s by (simp add: send_status)
  show "payload (res (json L j x)) = (if http_method (req x) = ''HEAD'' then NoPayload else Json j)"
    using st assms unfolding json_def send_payload
    by (auto simp: json_def [symmetric] res_defs)
qed

lemma json_ok:
  assumes "statusCode (res x) = 200" "http_method (req x) = ''GET''"
    and "falsy (out_headers (res x) ''etag'')" "out_headers (res x) ''last-modified'' = None"
    and "\<not> fresh L (headers (req x)) (Some (etag L (JSON_stringify L j))) None"
  shows "statusCode (res (json L j x)) = 200" and "payload (res (json L j x)) = Json j"
proof -
  let ?y = "if falsy (getHeader ''Content-Type'' x)
            then setHeader ''Content-Type'' ''application/json; charset=utf-8'' x else x"
  let ?z = "send_headers L (chunk_of L (Json j)) ?y"
  have e: "out_headers (res ?z) ''etag'' = Some (etag L (JSON_stringify L j))"
    using assms(3) send_headers_etag [of ?y L "chunk_of L (Json j)"]
    by (simp add: res_defs chunk_of_def)
  have m: "out_headers (res ?z) ''last-modified'' = None"
    using assms(4) send_headers_keep [of "''last-modified''" L "chunk_of L (Json j)" ?y]
    by (simp add: body_header_def res_defs)
  have nf: "\<not> req_fresh L ?z"
    using assms(1,2,5) e m by (simp add: req_fresh_def getHeader_def)
  show st: "statusCode (res (json L j x)) = 200"
    unfolding json_def using nf assms(1) by (simp add: send_status res_defs)
  show "payload (res (json L j x)) = Json j"
    using st assms(2) unfolding json_def send_payload
    by (auto simp: json_def [symmetric])
qed

subsection \<open>Paths and methods\<close>

lemma lower_char_slash: "lower_char c = CHR ''/'' \<longleftrightarrow> c = CHR ''/''"
  by (auto simp: lower_char_def split: if_splits)

lemma lower_slash [simp]: "lower_char CHR ''/'' = CHR ''/''"
  by (simp add: lower_char_def)

lemma root_paths: "match_route ''/'' p \<longleftrightarrow> p = [] \<or> p = ''/''"
  by (auto simp: match_route_def toLowerCase_def lower_char_slash Let_def)


lemma handles_GET [simp]: "handles_method ''GET''"
  by (simp add: handles_method_def toLowerCase_def lower_char_def)

lemma mount_root [simp]: "match_mount ''/'' p = Some []"
  by (simp add: match_mount_def)

lemma mount_api_root [simp]: "match_mount ''/api'' ''/'' = None"
  by (simp add: match_mount_def toLowerCase_def lower_char_def)

lemma mount_api_echo [simp]: "match_mount ''/api'' ''/api/echo'' = Some ''/api''"
  by (simp add: match_mount_def toLowerCase_def lower_char_def)

lemma route_echo [simp]: "match_route ''/echo'' ''/echo''"
  by (simp add: match_route_def toLowerCase_def lower_char_def)

lemma trim_nothing [simp]: "trim_prefix ph [] u = (u, False)"
  by (simp add: trim_prefix_def)

lemma restore_nothing [simp]: "restore_url ph [] False u = u"
  by (simp add: restore_url_def)



subsection \<open>Plain targets\<close>





subsection \<open>The handlers\<close>

lemma console_frame [simp]:
  "req (console_error s x) = req x" "res (console_error s x) = res x"
  "trace (console_error s x) = trace x" "req (console_log s x) = req x"
  "res (console_log s x) = res x" "trace (console_log s x) = trace x"
  by (simp_all add: console_error_def console_log_def)

lemma answers [simp]:
  "fst (echo L x) = Responded" "fst (api_echo L x) = Responded"
  "fst (notFound L x) = Responded" "fst (errorHandler L e x) = Responded"
  "fst (sendOptionsResponse L opts x) = Responded"
  by (simp_all add: echo_def api_echo_def notFound_def errorHandler_def sendOptionsResponse_def)

lemma handler_frame [simp]:
  "req (snd (echo L x)) = req x" "out (snd (echo L x)) = out x"
  "trace (snd (echo L x)) = trace x"
  "req (snd (api_echo L x)) = req x" "out (snd (api_echo L x)) = out x"
  "trace (snd (api_echo L x)) = trace x"
  "req (snd (notFound L x)) = req x" "out (snd (notFound L x)) = out x"
  "trace (snd (notFound L x)) = trace x"
  "req (snd (errorHandler L e x)) = req x" "trace (snd (errorHandler L e x)) = trace x"
  "out (snd (errorHandler L e x)) = (out x)\<lparr>stderr := stderr (out x) @ [stack e]\<rparr>"
  "req (snd (sendOptionsResponse L opts x)) = req x"
  "out (snd (sendOptionsResponse L opts x)) = out x"
  "trace (snd (sendOptionsResponse L opts x)) = trace x"
  by (simp_all add: echo_def api_echo_def notFound_def errorHandler_def sendOptionsResponse_def)
    (simp_all add: console_error_def)

lemma handler_keep:
  assumes "\<not> volatile k"
  shows "out_headers (res (snd (echo L x))) k = out_headers (res x) k"
    and "out_headers (res (snd (api_echo L x))) k = out_headers (res x) k"
    and "out_headers (res (snd (notFound L x))) k = out_headers (res x) k"
    and "out_headers (res (snd (errorHandler L e x))) k = out_headers (res x) k"
    and "out_headers (res (snd (sendOptionsResponse L opts x))) k = out_headers (res x) k"
    and "out_headers (res (finalhandler err x)) k = out_headers (res x) k"
  using assms
  by (simp_all add: echo_def api_echo_def notFound_def errorHandler_def sendOptionsResponse_def
      json_keep send_keep volatile_def)
    (simp_all add: res_defs finalhandler_def Let_def body_header_def)


lemma error_answer:
  "statusCode (res (snd (errorHandler L e x))) = 500"
  "payload (res (snd (errorHandler L e x))) =
     (if http_method (req x) = ''HEAD'' then NoPayload
      else Json (JObj [(''status'', JBool False), (''message'', JStr ''Internal server error'')]))"
  "statusCode (res (snd (notFound L x))) = 404"
  "payload (res (snd (notFound L x))) =
     (if http_method (req x) = ''HEAD'' then NoPayload
      else Json (JObj [(''status'', JBool False), (''message'', JStr ''Not found'')]))"
  by (simp_all add: errorHandler_def notFound_def json_error)

subsection \<open>The routers\<close>

lemma router_api:
  "router_handle L (api L) [] Y =
     (case getPathname L (url (req Y)) of
        None \<Rightarrow> (Next, Y)
      | Some q \<Rightarrow>
          if match_route ''/echo'' q then
            if handles_method (http_method (req Y)) then api_echo L Y
            else if http_method (req Y) = ''OPTIONS''
              then sendOptionsResponse L [''GET'', ''HEAD''] Y
            else (Next, Y)
          else (Next, Y))"
  by (simp add: api_def router_done_def appendMethods_def api_echo_def split: option.splits)

lemma router_root:
  "router_handle L (router L) [] Y =
     (case getPathname L (url (req Y)) of
        None \<Rightarrow> (Next, Y)
      | Some q \<Rightarrow>
          if match_route ''/'' q then
            if handles_method (http_method (req Y)) then echo L Y
            else if http_method (req Y) = ''OPTIONS''
              then sendOptionsResponse L [''GET'', ''HEAD''] Y
            else (Next, Y)
          else (Next, Y))"
  by (simp add: router_def router_done_def appendMethods_def echo_def split: option.splits)

lemma enter_frame [simp]:
  "req (enter n x) = req x" "res (enter n x) = res x" "out (enter n x) = out x"
  "trace (enter n x) = trace x @ [n]"
  by (simp_all add: enter_def)

text \<open>The root router and the two terminal handlers, on any exchange.\<close>

lemma closing_unfold:
  "handle L (closing_layers L) None Y =
     (case getPathname L (url (req Y)) of
        None \<Rightarrow> finalhandler None Y
      | Some p \<Rightarrow>
          if match_route ''/'' p \<and> handles_method (http_method (req Y))
            then snd (echo L (enter Stage_router Y))
          else if match_route ''/'' p \<and> http_method (req Y) = ''OPTIONS''
            then snd (sendOptionsResponse L [''GET'', ''HEAD''] (enter Stage_router Y))
          else snd (notFound L (enter Stage_notFound (enter Stage_router Y))))"
  by (cases Y)
    (simp add: closing_layers_def router_root notFound_def echo_def sendOptionsResponse_def
      enter_def split: option.splits)

lemma closing_keep:
  "\<not> volatile k \<Longrightarrow> out_headers (res (handle L (closing_layers L) None Y)) k = out_headers (res Y) k"
  by (simp add: closing_unfold handler_keep split: option.splits)



lemma closing_trace:
  "trace (handle L (closing_layers L) None Y) = trace Y @ [] \<or>
   trace (handle L (closing_layers L) None Y) = trace Y @ [Stage_router] \<or>
   trace (handle L (closing_layers L) None Y) = trace Y @ [Stage_router, Stage_notFound]"
  by (simp add: closing_unfold split: option.splits) (simp add: finalhandler_def Let_def res_defs)

lemma closing_trace_path:
  "getPathname L (url (req Y)) \<noteq> None \<Longrightarrow>
   trace (handle L (closing_layers L) None Y) = trace Y @ [Stage_router] \<or>
   trace (handle L (closing_layers L) None Y) = trace Y @ [Stage_router, Stage_notFound]"
  by (auto simp: closing_unfold split: option.splits)

lemma routing_layers_Cons:
  "routing_layers L = Mount Stage_api ''/api'' (api L) # closing_layers L"
  by (simp add: routing_layers_def closing_layers_def)

text \<open>The API router on any exchange, and the rest of the stack behind it.\<close>

lemma routing_unfold:
  "handle L (routing_layers L) None X =
     (case getPathname L (url (req X)) of
        None \<Rightarrow> finalhandler None X
      | Some p \<Rightarrow>
          (case match_mount ''/api'' p of
             None \<Rightarrow> handle L (closing_layers L) None X
           | Some removed \<Rightarrow>
               (let ph = getProtohost (url (req X));
                    cut = trim_prefix ph removed (url (req X));
                    X1 = enter Stage_api (X\<lparr>req := (req X)\<lparr>url := fst cut\<rparr>\<rparr>);
                    after = X1\<lparr>req := (req X1)\<lparr>url :=
                             restore_url ph removed (snd cut) (fst cut)\<rparr>\<rparr>
                in case getPathname L (fst cut) of
                     None \<Rightarrow> handle L (closing_layers L) None after
                   | Some q \<Rightarrow>
                       if match_route ''/echo'' q \<and> handles_method (http_method (req X))
                         then snd (api_echo L X1)
                       else if match_route ''/echo'' q \<and> http_method (req X) = ''OPTIONS''
                         then snd (sendOptionsResponse L [''GET'', ''HEAD''] X1)
                       else handle L (closing_layers L) None after)))"
  unfolding routing_layers_Cons
  by (subst handle.simps(2))
    (simp add: router_api Let_def api_echo_def sendOptionsResponse_def split: option.splits)

lemma routing_keep:
  "\<not> volatile k \<Longrightarrow> out_headers (res (handle L (routing_layers L) None X)) k = out_headers (res X) k"
  by (simp add: routing_unfold closing_keep handler_keep Let_def split: option.splits)


lemma routing_trace:
  "trace (handle L (routing_layers L) None X) = trace X @ [] \<or>
   trace (handle L (routing_layers L) None X) = trace X @ [Stage_api] \<or>
   trace (handle L (routing_layers L) None X) = trace X @ [Stage_api, Stage_router] \<or>
   trace (handle L (routing_layers L) None X) = trace X @ [Stage_api, Stage_router, Stage_notFound] \<or>
   trace (handle L (routing_layers L) None X) = trace X @ [Stage_router] \<or>
   trace (handle L (routing_layers L) None X) = trace X @ [Stage_router, Stage_notFound]"
proof (cases "getPathname L (url (req X))")
  case None
  then show ?thesis
    by (simp add: routing_unfold) (simp add: finalhandler_def Let_def res_defs)
next
  case (Some p)
  show ?thesis
  proof (cases "match_mount ''/api'' p")
    case None
    with Some closing_trace [of L X] show ?thesis
      by (auto simp: routing_unfold)
  next
    case (Some removed)
    let ?ph = "getProtohost (url (req X))"
    let ?cut = "trim_prefix ?ph removed (url (req X))"
    let ?X1 = "enter Stage_api (X\<lparr>req := (req X)\<lparr>url := fst ?cut\<rparr>\<rparr>)"
    let ?after = "?X1\<lparr>req := (req ?X1)\<lparr>url := restore_url ?ph removed (snd ?cut) (fst ?cut)\<rparr>\<rparr>"
    have t: "trace ?after = trace X @ [Stage_api]" "trace ?X1 = trace X @ [Stage_api]"
      by simp_all
    from closing_trace [of L ?after] \<open>getPathname L (url (req X)) = Some p\<close> Some t
    show ?thesis
      by (auto simp: routing_unfold Let_def split: option.splits)
  qed
qed


lemma routing_root_echo:
  assumes "http_method (req X) = ''GET''" "getPathname L (url (req X)) = Some ''/''"
  shows "handle L (routing_layers L) None X = snd (echo L (enter Stage_router X))"
  using assms by (simp add: routing_unfold closing_unfold root_paths)

lemma routing_api_echo:
  assumes "http_method (req X) = ''GET''" "getPathname L (url (req X)) = Some ''/api/echo''"
    and "getPathname L (fst (trim_prefix (getProtohost (url (req X))) ''/api'' (url (req X)))) =
           Some ''/echo''"
  shows "handle L (routing_layers L) None X =
           snd (api_echo L (enter Stage_api
             (X\<lparr>req := (req X)\<lparr>url :=
                fst (trim_prefix (getProtohost (url (req X))) ''/api'' (url (req X)))\<rparr>\<rparr>)))"
  using assms by (simp add: routing_unfold Let_def)


subsection \<open>The first stages\<close>

lemmas preamble_defs =
  preamble_def incoming_def expressInit_def logger_def cors_def remove_x_powered_by_def res_defs

lemma preamble_req [simp]: "req (preamble c r) = r"
  by (simp add: preamble_defs)

lemma preamble_trace [simp]:
  "trace (preamble c r) = [Stage_logger, Stage_cors, Stage_remove_x_powered_by]"
  by (simp add: preamble_defs)

lemma preamble_out [simp]:
  "out (preamble c r) = c\<lparr>stdout := stdout c @ [http_method r @ '' '' @ url r]\<rparr>"
  by (simp add: preamble_defs)

lemma preamble_status [simp]: "statusCode (res (preamble c r)) = 200"
  by (simp add: preamble_defs)

lemma preamble_payload [simp]: "payload (res (preamble c r)) = NoPayload"
  by (simp add: preamble_defs)

lemma preamble_headers:
  "out_headers (res (preamble c r)) =
     [''access-control-allow-origin'' \<mapsto> ''*'', ''access-control-allow-methods'' \<mapsto> ''*'',
      ''access-control-allow-headers'' \<mapsto> ''*'']"
  by (rule ext) (simp add: preamble_defs)


lemma app_run_no_path:
  "getPathname L (url r) = None \<Longrightarrow> app_run L c r = finalhandler None (incoming c r)"
  by (simp add: app_run_def incoming_def)

lemma app_run_preamble:
  "getPathname L (url r) = Some p \<Longrightarrow>
     app_run L c r = handle L (parsing_layers L @ routing_layers L) None (preamble c r)"
  by (simp add: app_run_def app_stack_def parsing_layers_def routing_layers_def preamble_def
      incoming_def expressInit_def logger_def cors_def remove_x_powered_by_def res_defs)

subsection \<open>The parsers\<close>

lemma parsers_raise:
  assumes "getPathname L (url (req X)) = Some p"
    and "headers (req X) ''content-type'' = Some ''application/json''"
    and "JSON_parse L (body (req X)) = Inl e"
  shows "handle L (parsing_layers L @ routing_layers L) None X =
           snd (errorHandler L e (enter Stage_errorHandler (enter Stage_jsonParser X)))"
  using assms
  by (simp add: parsing_layers_def routing_layers_def jsonParser_def errorHandler_def)

lemma parsers_pass:
  assumes "getPathname L (url (req X)) = Some p" and "\<not> parse_fails L (req X)"
  shows "handle L (parsing_layers L @ routing_layers L) None X =
           handle L (routing_layers L) None
             \<lparr>req = parsed L (req X), res = res X, out = out X,
              trace = trace X @ [Stage_jsonParser, Stage_urlEncodedParser, Stage_cookieParser]\<rparr>"
proof (cases "headers (req X) ''content-type'' = Some ''application/json''")
  case True
  with assms obtain j where j: "JSON_parse L (body (req X)) = Inr j"
    by (cases "JSON_parse L (body (req X))") (auto simp: parse_fails_def)
  show ?thesis
    using True j assms(1)
    by (cases X)
      (simp add: parsing_layers_def jsonParser_def urlEncodedParser_def cookieParser_def
        enter_def parsed_def)
next
  case False
  then show ?thesis
    using assms(1)
    by (cases X)
      (simp add: parsing_layers_def jsonParser_def urlEncodedParser_def cookieParser_def
        enter_def parsed_def)
qed

lemma parsed_frame [simp]:
  "http_method (parsed L r) = http_method r" "url (parsed L r) = url r"
  "headers (parsed L r) = headers r"
  by (simp_all add: parsed_def)

subsection \<open>The whole application\<close>


lemma app_fail:
  assumes "getPathname L (url r) = Some p" and "parse_fails L r"
  shows "\<exists>e. JSON_parse L (body r) = Inl e \<and>
           app_run L c r =
             snd (errorHandler L e
               (enter Stage_errorHandler (enter Stage_jsonParser (preamble c r))))"
proof -
  from assms(2) obtain e where e: "JSON_parse L (body r) = Inl e"
    by (cases "JSON_parse L (body r)") (auto simp: parse_fails_def)
  moreover have "headers (req (preamble c r)) ''content-type'' = Some ''application/json''"
    using assms(2) by (simp add: parse_fails_def)
  ultimately show ?thesis
    using parsers_raise [of L "preamble c r" p e] assms(1)
    by (simp add: app_run_preamble [OF assms(1)])
qed

lemma app_pass:
  assumes "getPathname L (url r) = Some p" and "\<not> parse_fails L r"
  shows "app_run L c r =
           handle L (routing_layers L) None
             \<lparr>req = parsed L r, res = res (preamble c r), out = out (preamble c r),
              trace = take 6 stage_order\<rparr>"
  using parsers_pass [of L "preamble c r" p] assms
  by (simp add: app_run_preamble [OF assms(1)] stage_order_def)

lemma fail_status:
  assumes "getPathname L (url r) = Some p" and "parse_fails L r"
  shows "statusCode (res (app_run L c r)) = 500"
    and "payload (res (app_run L c r)) =
           (if http_method r = ''HEAD'' then NoPayload
            else Json (JObj [(''status'', JBool False),
                             (''message'', JStr ''Internal server error'')]))"
    and "trace (app_run L c r) =
           [Stage_logger, Stage_cors, Stage_remove_x_powered_by, Stage_jsonParser,
            Stage_errorHandler]"
    and "\<exists>e. JSON_parse L (body r) = Inl e \<and>
           out (app_run L c r) =
             c\<lparr>stdout := stdout c @ [http_method r @ '' '' @ url r],
               stderr := stderr c @ [stack e]\<rparr>"
  using app_fail [OF assms, of c] by (auto simp: error_answer)

lemma routing_trace_path:
  assumes "getPathname L (url (req X)) = Some p"
  shows "trace (handle L (routing_layers L) None X) = trace X @ [Stage_api] \<or>
   trace (handle L (routing_layers L) None X) = trace X @ [Stage_api, Stage_router] \<or>
   trace (handle L (routing_layers L) None X) = trace X @ [Stage_api, Stage_router, Stage_notFound] \<or>
   trace (handle L (routing_layers L) None X) = trace X @ [Stage_router] \<or>
   trace (handle L (routing_layers L) None X) = trace X @ [Stage_router, Stage_notFound]"
proof (cases "match_mount ''/api'' p")
  case None
  with assms closing_trace_path [of L X] show ?thesis
    by (auto simp: routing_unfold)
next
  case (Some removed)
  let ?ph = "getProtohost (url (req X))"
  let ?cut = "trim_prefix ?ph removed (url (req X))"
  let ?X1 = "enter Stage_api (X\<lparr>req := (req X)\<lparr>url := fst ?cut\<rparr>\<rparr>)"
  let ?after = "?X1\<lparr>req := (req ?X1)\<lparr>url := restore_url ?ph removed (snd ?cut) (fst ?cut)\<rparr>\<rparr>"
  have t: "trace ?after = trace X @ [Stage_api]" "trace ?X1 = trace X @ [Stage_api]"
    by simp_all
  from closing_trace [of L ?after] assms Some t
  show ?thesis
    by (auto simp: routing_unfold Let_def split: option.splits)
qed

lemma sendDate_frame [simp]:
  "statusCode (sendDate now a) = statusCode a" "payload (sendDate now a) = payload a"
  "k \<noteq> ''date'' \<Longrightarrow> out_headers (sendDate now a) k = out_headers a k"
  by (simp_all add: sendDate_def)

lemma not_volatile [simp]:
  "\<not> volatile ''access-control-allow-origin''" "\<not> volatile ''access-control-allow-methods''"
  "\<not> volatile ''access-control-allow-headers''" "\<not> volatile ''x-powered-by''"
  "\<not> volatile ''date''" "\<not> volatile ''last-modified''"
  by (simp_all add: volatile_def body_header_def)

text \<open>What the application leaves of the headers that no answer touches.\<close>

lemma app_keep:
  assumes "\<not> volatile k"
  shows "out_headers (res (app_run L c r)) k =
           (case getPathname L (url r) of
              None \<Rightarrow> None
            | Some p \<Rightarrow> out_headers (res (preamble c r)) k)"
proof (cases "getPathname L (url r)")
  case None
  then show ?thesis
    using handler_keep(6) [OF assms, of None "incoming c r"]
    by (simp add: app_run_no_path) (simp add: incoming_def)
next
  case (Some p)
  show ?thesis
  proof (cases "parse_fails L r")
    case True
    from app_fail [OF Some True, of c] show ?thesis
      using Some handler_keep(4) [OF assms] by auto
  next
    case False
    show ?thesis
      using Some routing_keep [OF assms] by (simp add: app_pass [OF Some False])
  qed
qed




section \<open>The claims\<close>

text \<open>
  C1, as amended. A GET request for the path \<open>/\<close> on which \<open>jsonParser\<close> does not
  throw, and which is not a conditional request that Express finds fresh
  against the entity tag of the body, is answered with status 200 and the body
  \<open>{"status":true,"message":"Hello world, from /"}\<close>.
\<close>

theorem root_echo_response:
  assumes "http_method r = ''GET''" and "getPathname L (url r) = Some ''/''"
    and "\<not> parse_fails L r"
    and "\<not> fresh L (headers r)
             (Some (etag L (JSON_stringify L
                (JObj [(''status'', JBool True), (''message'', JStr ''Hello world, from /'')]))))
             None"
  shows "statusCode (snd (app L c now r)) = 200 \<and>
         payload (snd (app L c now r)) =
           Json (JObj [(''status'', JBool True), (''message'', JStr ''Hello world, from /'')])"
proof -
  let ?X = "\<lparr>req = parsed L r, res = res (preamble c r), out = out (preamble c r),
            trace = take 6 stage_order\<rparr>"
  have run: "app_run L c r = snd (echo L (enter Stage_router ?X))"
    unfolding app_pass [OF assms(2,3)] using assms(1,2) by (intro routing_root_echo) simp_all
  let ?Y = "status 200 (enter Stage_router ?X)"
  have "statusCode (res (json L (JObj [(''status'', JBool True),
            (''message'', JStr ''Hello world, from /'')]) ?Y)) = 200 \<and>
        payload (res (json L (JObj [(''status'', JBool True),
            (''message'', JStr ''Hello world, from /'')]) ?Y)) =
          Json (JObj [(''status'', JBool True), (''message'', JStr ''Hello world, from /'')])"
    using assms(1,4)
    by (intro conjI json_ok) (simp_all add: preamble_headers falsy_def)
  then show ?thesis
    by (simp add: app_def run echo_def)
qed

theorem root_echo_response_witness:
  "http_method (bare ''GET'' ''/'') = ''GET'' \<and>
   getPathname sample_lib (url (bare ''GET'' ''/'')) = Some ''/'' \<and>
   \<not> parse_fails sample_lib (bare ''GET'' ''/'') \<and>
   statusCode (snd (app sample_lib quiet ''Tue, 03 Nov 2026 10:00:00 GMT'' (bare ''GET'' ''/''))) = 200 \<and>
   payload (snd (app sample_lib quiet ''Tue, 03 Nov 2026 10:00:00 GMT'' (bare ''GET'' ''/''))) =
     Json (JObj [(''status'', JBool True), (''message'', JStr ''Hello world, from /'')])"
proof -
  have m: "http_method (bare ''GET'' ''/'') = ''GET''"
    by (simp add: bare_def)
  have p: "getPathname sample_lib (url (bare ''GET'' ''/'')) = Some ''/''"
    by (simp add: bare_def getPathname_def plain_target_def)
  have f: "\<not> parse_fails sample_lib (bare ''GET'' ''/'')"
    by (simp add: bare_def parse_fails_def)
  have n: "\<not> fresh sample_lib (headers (bare ''GET'' ''/''))
             (Some (etag sample_lib (JSON_stringify sample_lib
                (JObj [(''status'', JBool True), (''message'', JStr ''Hello world, from /'')]))))
             None"
    by (simp add: fresh_def falsy_def bare_def)
  show ?thesis
    using root_echo_response [OF m p f n, of quiet "''Tue, 03 Nov 2026 10:00:00 GMT''"] m p f
    by simp
qed

text \<open>
  C1 as stated fails: a GET request for \<open>/\<close> that announces JSON and carries no
  body is answered with status 500.
\<close>

theorem root_echo_counterexample:
  "http_method (json_typed ''GET'' ''/'' Undefined) = ''GET'' \<and>
   getPathname sample_lib (url (json_typed ''GET'' ''/'' Undefined)) = Some ''/'' \<and>
   statusCode (snd (app sample_lib quiet ''Tue, 03 Nov 2026 10:00:00 GMT''
     (json_typed ''GET'' ''/'' Undefined))) = 500"
proof -
  have p: "getPathname sample_lib (url (json_typed ''GET'' ''/'' Undefined)) = Some ''/''"
    by (simp add: json_typed_def getPathname_def plain_target_def)
  have f: "parse_fails sample_lib (json_typed ''GET'' ''/'' Undefined)"
    by (simp add: parse_fails_def json_typed_def JSON_parse_def)
  show ?thesis
    using fail_status(1) [OF p f, of quiet] p by (simp add: app_def) (simp add: json_typed_def)
qed

text \<open>
  C2, as amended. A GET request whose path is \<open>/api/echo\<close>, and \<open>/echo\<close> once the
  mount path is cut off the target, on which \<open>jsonParser\<close> does not throw, and
  which is not a conditional request that Express finds fresh against the entity
  tag of the body, is answered with status 200 and the body
  \<open>{"status":true,"message":"Hello world, from the API!"}\<close>.
\<close>

theorem api_echo_response:
  assumes "http_method r = ''GET''" and "getPathname L (url r) = Some ''/api/echo''"
    and "getPathname L (fst (trim_prefix (getProtohost (url r)) ''/api'' (url r))) = Some ''/echo''"
    and "\<not> parse_fails L r"
    and "\<not> fresh L (headers r)
             (Some (etag L (JSON_stringify L
                (JObj [(''status'', JBool True),
                       (''message'', JStr ''Hello world, from the API!'')]))))
             None"
  shows "statusCode (snd (app L c now r)) = 200 \<and>
         payload (snd (app L c now r)) =
           Json (JObj [(''status'', JBool True),
                       (''message'', JStr ''Hello world, from the API!'')])"
proof -
  let ?X = "\<lparr>req = parsed L r, res = res (preamble c r), out = out (preamble c r),
            trace = take 6 stage_order\<rparr>"
  let ?X1 = "enter Stage_api
               (?X\<lparr>req := (req ?X)\<lparr>url :=
                  fst (trim_prefix (getProtohost (url (req ?X))) ''/api'' (url (req ?X)))\<rparr>\<rparr>)"
  have run: "app_run L c r = snd (api_echo L ?X1)"
    unfolding app_pass [OF assms(2,4)] using assms(1,2,3) by (intro routing_api_echo) simp_all
  let ?Y = "status 200 ?X1"
  have "statusCode (res (json L (JObj [(''status'', JBool True),
            (''message'', JStr ''Hello world, from the API!'')]) ?Y)) = 200 \<and>
        payload (res (json L (JObj [(''status'', JBool True),
            (''message'', JStr ''Hello world, from the API!'')]) ?Y)) =
          Json (JObj [(''status'', JBool True), (''message'', JStr ''Hello world, from the API!'')])"
    using assms(1,5)
    by (intro conjI json_ok) (simp_all add: preamble_headers falsy_def)
  then show ?thesis
    by (simp add: app_def run api_echo_def)
qed

theorem api_echo_response_witness:
  "http_method (bare ''GET'' ''/api/echo'') = ''GET'' \<and>
   getPathname sample_lib (url (bare ''GET'' ''/api/echo'')) = Some ''/api/echo'' \<and>
   \<not> parse_fails sample_lib (bare ''GET'' ''/api/echo'') \<and>
   statusCode (snd (app sample_lib quiet ''Tue, 03 Nov 2026 10:00:00 GMT''
     (bare ''GET'' ''/api/echo''))) = 200 \<and>
   payload (snd (app sample_lib quiet ''Tue, 03 Nov 2026 10:00:00 GMT''
     (bare ''GET'' ''/api/echo''))) =
     Json (JObj [(''status'', JBool True), (''message'', JStr ''Hello world, from the API!'')])"
proof -
  have m: "http_method (bare ''GET'' ''/api/echo'') = ''GET''"
    by (simp add: bare_def)
  have p: "getPathname sample_lib (url (bare ''GET'' ''/api/echo'')) = Some ''/api/echo''"
    by (simp add: bare_def getPathname_def plain_target_def special_def)
  have q: "getPathname sample_lib
             (fst (trim_prefix (getProtohost (url (bare ''GET'' ''/api/echo''))) ''/api''
                (url (bare ''GET'' ''/api/echo'')))) = Some ''/echo''"
    by (simp add: bare_def getPathname_def plain_target_def special_def trim_prefix_def
        getProtohost_def)
  have f: "\<not> parse_fails sample_lib (bare ''GET'' ''/api/echo'')"
    by (simp add: bare_def parse_fails_def)
  have n: "\<not> fresh sample_lib (headers (bare ''GET'' ''/api/echo''))
             (Some (etag sample_lib (JSON_stringify sample_lib
                (JObj [(''status'', JBool True),
                       (''message'', JStr ''Hello world, from the API!'')]))))
             None"
    by (simp add: fresh_def falsy_def bare_def)
  show ?thesis
    using api_echo_response [OF m p q f n, of quiet "''Tue, 03 Nov 2026 10:00:00 GMT''"] m p f
    by simp
qed

text \<open>
  C2 as stated fails: a GET request for \<open>/api/echo\<close> that announces JSON and
  carries no body is answered with status 500.
\<close>

theorem api_echo_counterexample:
  "http_method (json_typed ''GET'' ''/api/echo'' Undefined) = ''GET'' \<and>
   getPathname sample_lib (url (json_typed ''GET'' ''/api/echo'' Undefined)) = Some ''/api/echo'' \<and>
   statusCode (snd (app sample_lib quiet ''Tue, 03 Nov 2026 10:00:00 GMT''
     (json_typed ''GET'' ''/api/echo'' Undefined))) = 500"
proof -
  have p: "getPathname sample_lib (url (json_typed ''GET'' ''/api/echo'' Undefined)) =
             Some ''/api/echo''"
    by (simp add: json_typed_def getPathname_def plain_target_def special_def)
  have f: "parse_fails sample_lib (json_typed ''GET'' ''/api/echo'' Undefined)"
    by (simp add: parse_fails_def json_typed_def JSON_parse_def)
  show ?thesis
    using fail_status(1) [OF p f, of quiet] p by (simp add: app_def) (simp add: json_typed_def)
qed







text \<open>
  C5. \<open>jsonParser\<close> replaces the body by its parse and forwards when the
  content-type header is exactly \<open>application/json\<close> and the body parses; it
  forwards the exchange unchanged for every other content type; when the header
  is equal and the body does not parse it throws, and then, in the application,
  no later parser, router or 404 handler is entered: the exchange ends in
  \<open>errorHandler\<close> with the error's stack on the error stream and status 500.
\<close>

theorem json_parser_contract:
  "(headers (req x) ''content-type'' = Some ''application/json'' \<and>
      JSON_parse L (body (req x)) = Inr j \<longrightarrow>
        jsonParser L x = (Next, x\<lparr>req := (req x)\<lparr>body := Structured j\<rparr>\<rparr>)) \<and>
   (headers (req x) ''content-type'' \<noteq> Some ''application/json'' \<longrightarrow>
        jsonParser L x = (Next, x)) \<and>
   (headers (req x) ''content-type'' = Some ''application/json'' \<and>
      JSON_parse L (body (req x)) = Inl e \<longrightarrow>
        jsonParser L x = (Raise e, x)) \<and>
   (headers r ''content-type'' = Some ''application/json'' \<and> JSON_parse L (body r) = Inl e \<and>
      getPathname L (url r) \<noteq> None \<longrightarrow>
        trace (app_run L c r) =
          [Stage_logger, Stage_cors, Stage_remove_x_powered_by, Stage_jsonParser,
           Stage_errorHandler] \<and>
        stderr (fst (app L c now r)) = stderr c @ [stack e] \<and>
        statusCode (snd (app L c now r)) = 500)"
proof -
  have "trace (app_run L c r) =
          [Stage_logger, Stage_cors, Stage_remove_x_powered_by, Stage_jsonParser,
           Stage_errorHandler] \<and>
        stderr (fst (app L c now r)) = stderr c @ [stack e] \<and>
        statusCode (snd (app L c now r)) = 500"
    if "headers r ''content-type'' = Some ''application/json''" "JSON_parse L (body r) = Inl e"
      "getPathname L (url r) \<noteq> None"
  proof -
    from that have f: "parse_fails L r"
      by (simp add: parse_fails_def)
    from that(3) obtain p where p: "getPathname L (url r) = Some p"
      by auto
    show ?thesis
      using fail_status [OF p f, of c] that(2) by (auto simp: app_def)
  qed
  then show ?thesis
    by (simp add: jsonParser_def)
qed

theorem json_parser_contract_witness:
  "jsonParser sample_lib (incoming quiet (json_typed ''POST'' ''/'' (Str ''{}''))) =
     (Next, (incoming quiet (json_typed ''POST'' ''/'' (Str ''{}'')))
        \<lparr>req := (json_typed ''POST'' ''/'' (Str ''{}''))\<lparr>body := Structured (JObj [])\<rparr>\<rparr>) \<and>
   jsonParser sample_lib (incoming quiet (bare ''POST'' ''/'')) =
     (Next, incoming quiet (bare ''POST'' ''/'')) \<and>
   jsonParser sample_lib (incoming quiet (json_typed ''POST'' ''/'' (Str ''{''))) =
     (Raise (JsError ''SyntaxError'' ''{'' ''SyntaxError: {''),
      incoming quiet (json_typed ''POST'' ''/'' (Str ''{''))) \<and>
   getPathname sample_lib (url (json_typed ''POST'' ''/'' (Str ''{''))) \<noteq> None \<and>
   stderr (fst (app sample_lib quiet ''Tue, 03 Nov 2026 10:00:00 GMT''
     (json_typed ''POST'' ''/'' (Str ''{'')))) = [''SyntaxError: {''] \<and>
   statusCode (snd (app sample_lib quiet ''Tue, 03 Nov 2026 10:00:00 GMT''
     (json_typed ''POST'' ''/'' (Str ''{'')))) = 500"
proof -
  have r: "req (incoming quiet r) = r" for r
    by (simp add: incoming_def)
  have ok: "headers (json_typed ''POST'' ''/'' b) ''content-type'' = Some ''application/json''" for b
    by (simp add: json_typed_def)
  have no: "headers (bare ''POST'' ''/'') ''content-type'' \<noteq> Some ''application/json''"
    by (simp add: bare_def)
  have good: "JSON_parse sample_lib (body (json_typed ''POST'' ''/'' (Str ''{}''))) = Inr (JObj [])"
    by (simp add: json_typed_def JSON_parse_def parse_text_def sample_lib_def)
  have bad: "JSON_parse sample_lib (body (json_typed ''POST'' ''/'' (Str ''{''))) =
               Inl (JsError ''SyntaxError'' ''{'' ''SyntaxError: {'')"
    by (simp add: json_typed_def JSON_parse_def parse_text_def sample_lib_def)
  have p: "getPathname sample_lib (url (json_typed ''POST'' ''/'' (Str ''{''))) \<noteq> None"
    by (simp add: json_typed_def getPathname_def plain_target_def)
  show ?thesis
    using json_parser_contract [of "incoming quiet (json_typed ''POST'' ''/'' (Str ''{}''))"
        sample_lib "JObj []" "JsError ''SyntaxError'' ''{'' ''SyntaxError: {''"
        "bare ''POST'' ''/''" quiet "''Tue, 03 Nov 2026 10:00:00 GMT''"]
      json_parser_contract [of "incoming quiet (bare ''POST'' ''/'')"
        sample_lib "JObj []" "JsError ''SyntaxError'' ''{'' ''SyntaxError: {''"
        "bare ''POST'' ''/''" quiet "''Tue, 03 Nov 2026 10:00:00 GMT''"]
      json_parser_contract [of "incoming quiet (json_typed ''POST'' ''/'' (Str ''{''))"
        sample_lib "JObj []" "JsError ''SyntaxError'' ''{'' ''SyntaxError: {''"
        "json_typed ''POST'' ''/'' (Str ''{'')" quiet "''Tue, 03 Nov 2026 10:00:00 GMT''"]
      r ok no good bad p
    by (simp add: quiet_def)
qed

text \<open>
  C6, as amended. The response to every request whose target has a pathname
  carries \<open>Access-Control-Allow-Origin\<close>, \<open>Access-Control-Allow-Methods\<close> and
  \<open>Access-Control-Allow-Headers\<close>, each \<open>*\<close>, and no \<open>X-Powered-By\<close>, which
  Express had set before the application's stages ran.
\<close>

theorem cors_headers_always:
  assumes "getPathname L (url r) \<noteq> None"
  shows "out_headers (snd (app L c now r)) ''access-control-allow-origin'' = Some ''*'' \<and>
   out_headers (snd (app L c now r)) ''access-control-allow-methods'' = Some ''*'' \<and>
   out_headers (snd (app L c now r)) ''access-control-allow-headers'' = Some ''*'' \<and>
   out_headers (snd (app L c now r)) ''x-powered-by'' = None \<and>
   out_headers (res (snd (expressInit (incoming c r)))) ''x-powered-by'' = Some ''Express''"
proof -
  from assms obtain p where p: "getPathname L (url r) = Some p"
    by auto
  show ?thesis
    using p by (simp add: app_def app_keep preamble_headers)
      (simp add: expressInit_def setHeader_def incoming_def)
qed

theorem cors_headers_always_witness:
  "getPathname sample_lib (url (bare ''GET'' ''/nope'')) \<noteq> None \<and>
   out_headers (snd (app sample_lib quiet ''Tue, 03 Nov 2026 10:00:00 GMT'' (bare ''GET'' ''/nope'')))
     ''access-control-allow-origin'' = Some ''*'' \<and>
   out_headers (snd (app sample_lib quiet ''Tue, 03 Nov 2026 10:00:00 GMT'' (bare ''GET'' ''/nope'')))
     ''x-powered-by'' = None"
proof -
  have p: "getPathname sample_lib (url (bare ''GET'' ''/nope'')) \<noteq> None"
    by (simp add: bare_def getPathname_def plain_target_def special_def)
  show ?thesis
    using cors_headers_always [OF p, of quiet "''Tue, 03 Nov 2026 10:00:00 GMT''"] p by simp
qed

text \<open>
  C6 as stated fails: in the target \<open>foo://bar\<close> there is no pathname, no stage
  runs, and the 404 that Express answers itself carries no
  \<open>Access-Control-Allow-Origin\<close>.
\<close>

theorem cors_headers_counterexample:
  "getPathname sample_lib (url (bare ''GET'' ''foo://bar'')) = None \<and>
   statusCode (snd (app sample_lib quiet ''Tue, 03 Nov 2026 10:00:00 GMT''
     (bare ''GET'' ''foo://bar''))) = 404 \<and>
   out_headers (snd (app sample_lib quiet ''Tue, 03 Nov 2026 10:00:00 GMT''
     (bare ''GET'' ''foo://bar''))) ''access-control-allow-origin'' = None"
proof -
  have p: "getPathname sample_lib (url (bare ''GET'' ''foo://bar'')) = None"
    by (simp add: bare_def getPathname_def plain_target_def sample_lib_def)
  have s: "statusCode (res (app_run sample_lib quiet (bare ''GET'' ''foo://bar''))) = 404"
    by (simp add: app_run_no_path [OF p] finalhandler_def Let_def)
  have h: "out_headers (res (app_run sample_lib quiet (bare ''GET'' ''foo://bar'')))
             ''access-control-allow-origin'' = None"
    using p by (simp add: app_keep)
  show ?thesis
    using p s h by (simp add: app_def)
qed

text \<open>
  C7, as amended. On every request the stages entered are entered in the order
  of src/app.js (logger, CORS, X-Powered-By removal, JSON parser, url-encoded
  parser, cookie parser, API router, root router, 404 handler, error handler),
  none twice, and never all ten: the stages entered are one of the seven lists
  below. No stage is entered when the target has no pathname; otherwise the
  first four always are; after a throw of \<open>jsonParser\<close> only the error handler
  follows; without one the six first stages are entered and the error handler
  is not; nothing follows the 404 handler or the error handler.
\<close>

theorem stage_order_kept:
  "trace (app_run L c r) \<in>
     {[],
      [Stage_logger, Stage_cors, Stage_remove_x_powered_by, Stage_jsonParser,
       Stage_errorHandler],
      [Stage_logger, Stage_cors, Stage_remove_x_powered_by, Stage_jsonParser,
       Stage_urlEncodedParser, Stage_cookieParser, Stage_api],
      [Stage_logger, Stage_cors, Stage_remove_x_powered_by, Stage_jsonParser,
       Stage_urlEncodedParser, Stage_cookieParser, Stage_api, Stage_router],
      [Stage_logger, Stage_cors, Stage_remove_x_powered_by, Stage_jsonParser,
       Stage_urlEncodedParser, Stage_cookieParser, Stage_api, Stage_router, Stage_notFound],
      [Stage_logger, Stage_cors, Stage_remove_x_powered_by, Stage_jsonParser,
       Stage_urlEncodedParser, Stage_cookieParser, Stage_router],
      [Stage_logger, Stage_cors, Stage_remove_x_powered_by, Stage_jsonParser,
       Stage_urlEncodedParser, Stage_cookieParser, Stage_router, Stage_notFound]} \<and>
   subseq (trace (app_run L c r)) stage_order \<and>
   trace (app_run L c r) \<noteq> stage_order \<and>
   (getPathname L (url r) = None \<longrightarrow> trace (app_run L c r) = []) \<and>
   (getPathname L (url r) \<noteq> None \<longrightarrow>
      take 4 (trace (app_run L c r)) =
        [Stage_logger, Stage_cors, Stage_remove_x_powered_by, Stage_jsonParser]) \<and>
   (getPathname L (url r) \<noteq> None \<and> parse_fails L r \<longrightarrow>
      trace (app_run L c r) =
        [Stage_logger, Stage_cors, Stage_remove_x_powered_by, Stage_jsonParser,
         Stage_errorHandler]) \<and>
   (getPathname L (url r) \<noteq> None \<and> \<not> parse_fails L r \<longrightarrow>
      take 6 (trace (app_run L c r)) =
        [Stage_logger, Stage_cors, Stage_remove_x_powered_by, Stage_jsonParser,
         Stage_urlEncodedParser, Stage_cookieParser] \<and>
      Stage_errorHandler \<notin> set (trace (app_run L c r)))"
proof -
  let ?t = "trace (app_run L c r)"
  let ?fail = "[Stage_logger, Stage_cors, Stage_remove_x_powered_by, Stage_jsonParser,
       Stage_errorHandler]"
  let ?six = "[Stage_logger, Stage_cors, Stage_remove_x_powered_by, Stage_jsonParser,
       Stage_urlEncodedParser, Stage_cookieParser]"
  have none: "?t = []" if "getPathname L (url r) = None"
    using that by (simp add: app_run_no_path finalhandler_def Let_def) (simp add: incoming_def)
  have fail: "?t = ?fail" if "getPathname L (url r) = Some p" "parse_fails L r" for p
    using fail_status(3) [OF that] .
  have pass: "?t = ?six @ [Stage_api] \<or> ?t = ?six @ [Stage_api, Stage_router] \<or>
              ?t = ?six @ [Stage_api, Stage_router, Stage_notFound] \<or>
              ?t = ?six @ [Stage_router] \<or> ?t = ?six @ [Stage_router, Stage_notFound]"
    if "getPathname L (url r) = Some p" "\<not> parse_fails L r" for p
  proof -
    let ?X = "\<lparr>req = parsed L r, res = res (preamble c r), out = out (preamble c r),
              trace = take 6 stage_order\<rparr>"
    have "getPathname L (url (req ?X)) = Some p"
      using that(1) by simp
    from routing_trace_path [OF this] show ?thesis
      unfolding app_pass [OF that] by (simp add: stage_order_def)
  qed
  have cases: "(getPathname L (url r) = None \<and> ?t = []) \<or>
               (getPathname L (url r) \<noteq> None \<and> parse_fails L r \<and> ?t = ?fail) \<or>
               (getPathname L (url r) \<noteq> None \<and> \<not> parse_fails L r \<and>
                  (?t = ?six @ [Stage_api] \<or> ?t = ?six @ [Stage_api, Stage_router] \<or>
                   ?t = ?six @ [Stage_api, Stage_router, Stage_notFound] \<or>
                   ?t = ?six @ [Stage_router] \<or> ?t = ?six @ [Stage_router, Stage_notFound]))"
  proof (cases "getPathname L (url r)")
    case None
    then show ?thesis using none by simp
  next
    case (Some p)
    then show ?thesis
      using fail [OF Some] pass [OF Some] by (cases "parse_fails L r") simp_all
  qed
  from cases show ?thesis
    by (elim disjE conjE) (simp_all add: stage_order_def)
qed

theorem stage_order_kept_witness:
  "getPathname sample_lib (url (bare ''GET'' ''foo://bar'')) = None \<and>
   trace (app_run sample_lib quiet (bare ''GET'' ''foo://bar'')) = [] \<and>
   getPathname sample_lib (url (json_typed ''GET'' ''/'' Undefined)) \<noteq> None \<and>
   parse_fails sample_lib (json_typed ''GET'' ''/'' Undefined) \<and>
   trace (app_run sample_lib quiet (json_typed ''GET'' ''/'' Undefined)) =
     [Stage_logger, Stage_cors, Stage_remove_x_powered_by, Stage_jsonParser,
      Stage_errorHandler] \<and>
   getPathname sample_lib (url (bare ''GET'' ''/nope'')) \<noteq> None \<and>
   \<not> parse_fails sample_lib (bare ''GET'' ''/nope'') \<and>
   take 6 (trace (app_run sample_lib quiet (bare ''GET'' ''/nope''))) =
     [Stage_logger, Stage_cors, Stage_remove_x_powered_by, Stage_jsonParser,
      Stage_urlEncodedParser, Stage_cookieParser] \<and>
   take 4 (trace (app_run sample_lib quiet (bare ''GET'' ''/nope''))) =
     [Stage_logger, Stage_cors, Stage_remove_x_powered_by, Stage_jsonParser]"
proof -
  have a: "getPathname sample_lib (url (bare ''GET'' ''foo://bar'')) = None"
    by (simp add: bare_def getPathname_def plain_target_def sample_lib_def)
  have b: "getPathname sample_lib (url (json_typed ''GET'' ''/'' Undefined)) \<noteq> None"
    by (simp add: json_typed_def getPathname_def plain_target_def)
  have f: "parse_fails sample_lib (json_typed ''GET'' ''/'' Undefined)"
    by (simp add: parse_fails_def json_typed_def JSON_parse_def)
  have d: "getPathname sample_lib (url (bare ''GET'' ''/nope'')) \<noteq> None"
    by (simp add: bare_def getPathname_def plain_target_def special_def)
  have g: "\<not> parse_fails sample_lib (bare ''GET'' ''/nope'')"
    by (simp add: bare_def parse_fails_def)
  show ?thesis
    using stage_order_kept [of sample_lib quiet "bare ''GET'' ''foo://bar''"]
      stage_order_kept [of sample_lib quiet "json_typed ''GET'' ''/'' Undefined"]
      stage_order_kept [of sample_lib quiet "bare ''GET'' ''/nope''"]
      a b f d g
    by simp
qed

text \<open>
  C7 as stated fails: on a GET request for \<open>/\<close> the API router, the 404 handler
  and the error handler are not entered.
\<close>

theorem stage_order_counterexample:
  "trace (app_run sample_lib quiet (bare ''GET'' ''/'')) =
     [Stage_logger, Stage_cors, Stage_remove_x_powered_by, Stage_jsonParser,
      Stage_urlEncodedParser, Stage_cookieParser, Stage_router] \<and>
   trace (app_run sample_lib quiet (bare ''GET'' ''/'')) \<noteq> stage_order"
proof -
  have p: "getPathname sample_lib (url (bare ''GET'' ''/'')) = Some ''/''"
    by (simp add: bare_def getPathname_def plain_target_def)
  have f: "\<not> parse_fails sample_lib (bare ''GET'' ''/'')"
    by (simp add: bare_def parse_fails_def)
  let ?X = "\<lparr>req = parsed sample_lib (bare ''GET'' ''/''),
            res = res (preamble quiet (bare ''GET'' ''/'')),
            out = out (preamble quiet (bare ''GET'' ''/'')), trace = take 6 stage_order\<rparr>"
  have m: "http_method (req ?X) = ''GET''" "getPathname sample_lib (url (req ?X)) = Some ''/''"
    using p by (simp_all add: bare_def)
  show ?thesis
    unfolding app_pass [OF p f] routing_root_echo [OF m] by (simp add: stage_order_def)
qed



text \<open>
  C9. The three header-removing middlewares forward control, and any two of them
  leave the same exchange (so the same response headers) in either order.
\<close>

theorem header_removals_commute:
  "fst (remove_x_powered_by x) = Next \<and> fst (remove_etag x) = Next \<and>
   fst (remove_x_content_type_options x) = Next \<and>
   snd (remove_etag (snd (remove_x_powered_by x))) =
     snd (remove_x_powered_by (snd (remove_etag x))) \<and>
   snd (remove_x_content_type_options (snd (remove_x_powered_by x))) =
     snd (remove_x_powered_by (snd (remove_x_content_type_options x))) \<and>
   snd (remove_x_content_type_options (snd (remove_etag x))) =
     snd (remove_etag (snd (remove_x_content_type_options x)))"
  by (simp add: remove_x_powered_by_def remove_etag_def remove_x_content_type_options_def
      removeHeader_def fun_upd_twist)

text \<open>
  C10, as amended. A request whose target has a pathname, whose content-type
  header is exactly \<open>application/json\<close> and whose body is absent or is a text
  that is not JSON is answered by \<open>errorHandler\<close>, with status 500 and, unless
  its method is HEAD, the body
  \<open>{"status":false,"message":"Internal server error"}\<close>, whatever its method and
  path: after \<open>jsonParser\<close> no router and no 404 handler is entered.
\<close>

theorem unparsable_json_gives_500:
  assumes "headers r ''content-type'' = Some ''application/json''"
    and "body r = Undefined \<or> (\<exists>s. body r = Str s \<and> JSON_parse_text L s = None)"
    and "getPathname L (url r) \<noteq> None"
  shows "fst (jsonParser L (preamble c r)) = Raise (SyntaxError_for L
           (case body r of Str s \<Rightarrow> s | _ \<Rightarrow> ''undefined'')) \<and>
         statusCode (snd (app L c now r)) = 500 \<and>
         payload (snd (app L c now r)) =
           (if http_method r = ''HEAD'' then NoPayload
            else Json (JObj [(''status'', JBool False),
                             (''message'', JStr ''Internal server error'')])) \<and>
         trace (app_run L c r) =
           [Stage_logger, Stage_cors, Stage_remove_x_powered_by, Stage_jsonParser,
            Stage_errorHandler]"
proof -
  have e: "JSON_parse L (body r) =
             Inl (SyntaxError_for L (case body r of Str s \<Rightarrow> s | _ \<Rightarrow> ''undefined''))"
    using assms(2) by (auto simp: JSON_parse_def parse_text_def)
  then have f: "parse_fails L r"
    using assms(1) by (simp add: parse_fails_def)
  from assms(3) obtain p where p: "getPathname L (url r) = Some p"
    by auto
  show ?thesis
    using fail_status(1-3) [OF p f, of c] e assms(1) by (simp add: app_def jsonParser_def)
qed

theorem unparsable_json_gives_500_witness:
  "headers (json_typed ''GET'' ''/api/echo'' (Str ''[1,'')) ''content-type'' =
     Some ''application/json'' \<and>
   JSON_parse_text sample_lib ''[1,'' = None \<and>
   getPathname sample_lib (url (json_typed ''GET'' ''/api/echo'' (Str ''[1,''))) \<noteq> None \<and>
   statusCode (snd (app sample_lib quiet ''Tue, 03 Nov 2026 10:00:00 GMT''
     (json_typed ''GET'' ''/api/echo'' (Str ''[1,'')))) = 500 \<and>
   payload (snd (app sample_lib quiet ''Tue, 03 Nov 2026 10:00:00 GMT''
     (json_typed ''GET'' ''/api/echo'' (Str ''[1,'')))) =
     Json (JObj [(''status'', JBool False), (''message'', JStr ''Internal server error'')]) \<and>
   headers (json_typed ''DELETE'' ''/nope'' Undefined) ''content-type'' = Some ''application/json'' \<and>
   statusCode (snd (app sample_lib quiet ''Tue, 03 Nov 2026 10:00:00 GMT''
     (json_typed ''DELETE'' ''/nope'' Undefined))) = 500"
proof -
  have h: "headers (json_typed m u b) ''content-type'' = Some ''application/json''" for m u b
    by (simp add: json_typed_def)
  have p: "JSON_parse_text sample_lib ''[1,'' = None"
    by (simp add: sample_lib_def)
  have b1: "body (json_typed ''GET'' ''/api/echo'' (Str ''[1,'')) = Undefined \<or>
            (\<exists>s. body (json_typed ''GET'' ''/api/echo'' (Str ''[1,'')) = Str s \<and>
                 JSON_parse_text sample_lib s = None)"
    using p by (simp add: json_typed_def)
  have b2: "body (json_typed ''DELETE'' ''/nope'' Undefined) = Undefined \<or>
            (\<exists>s. body (json_typed ''DELETE'' ''/nope'' Undefined) = Str s \<and>
                 JSON_parse_text sample_lib s = None)"
    by (simp add: json_typed_def)
  have q1: "getPathname sample_lib (url (json_typed ''GET'' ''/api/echo'' (Str ''[1,''))) \<noteq> None"
    by (simp add: json_typed_def getPathname_def plain_target_def special_def)
  have q2: "getPathname sample_lib (url (json_typed ''DELETE'' ''/nope'' Undefined)) \<noteq> None"
    by (simp add: json_typed_def getPathname_def plain_target_def special_def)
  have m: "http_method (json_typed ''GET'' ''/api/echo'' (Str ''[1,'')) \<noteq> ''HEAD''"
    by (simp add: json_typed_def)
  show ?thesis
    using unparsable_json_gives_500 [OF h b1 q1, of quiet "''Tue, 03 Nov 2026 10:00:00 GMT''"]
      unparsable_json_gives_500 [OF h b2 q2, of quiet "''Tue, 03 Nov 2026 10:00:00 GMT''"]
      h p q1 m
    by simp
qed

text \<open>
  C10 as stated fails: a request for the target \<open>foo://bar\<close>, in which there is
  no pathname, that announces JSON and carries no body enters no stage and is
  answered by Express itself, with status 404 and its own page.
\<close>

theorem unparsable_json_counterexample:
  "headers (json_typed ''GET'' ''foo://bar'' Undefined) ''content-type'' =
     Some ''application/json'' \<and>
   body (json_typed ''GET'' ''foo://bar'' Undefined) = Undefined \<and>
   statusCode (snd (app sample_lib quiet ''Tue, 03 Nov 2026 10:00:00 GMT''
     (json_typed ''GET'' ''foo://bar'' Undefined))) = 404 \<and>
   payload (snd (app sample_lib quiet ''Tue, 03 Nov 2026 10:00:00 GMT''
     (json_typed ''GET'' ''foo://bar'' Undefined))) = DefaultPage \<and>
   trace (app_run sample_lib quiet (json_typed ''GET'' ''foo://bar'' Undefined)) = []"
proof -
  have p: "getPathname sample_lib (url (json_typed ''GET'' ''foo://bar'' Undefined)) = None"
    by (simp add: json_typed_def getPathname_def plain_target_def sample_lib_def)
  have m: "http_method (req (incoming quiet (json_typed ''GET'' ''foo://bar'' Undefined))) \<noteq> ''HEAD''"
    "trace (incoming quiet (json_typed ''GET'' ''foo://bar'' Undefined)) = []"
    by (simp_all add: incoming_def json_typed_def)
  show ?thesis
    using m by (simp add: app_def app_run_no_path [OF p] finalhandler_def Let_def)
      (simp add: json_typed_def)
qed

end
